theory Spec2Isabelle
  imports Complex_Main
begin

section \<open>Values of the handlers\<close>

text \<open>
  A JavaScript number is a finite value, one of the two infinities, or NaN.  Finite values
  are taken as exact rationals: the rounding of binary floating point and the sign of zero
  are outside the model.
\<close>

datatype jsnum = Fin rat | PInf | NInf | NaN

text \<open>Truthiness of a number, as \<^verbatim>\<open>!x\<close>, \<^verbatim>\<open>x ? a : b\<close> and \<^verbatim>\<open>x || y\<close> read it: 0 and NaN are falsy.\<close>

fun truthy :: "jsnum \<Rightarrow> bool" where
  "truthy (Fin r) = (r \<noteq> 0)"
| "truthy PInf = True"
| "truthy NInf = True"
| "truthy NaN = False"

fun isNaN :: "jsnum \<Rightarrow> bool" where
  "isNaN NaN = True"
| "isNaN _ = False"

fun js_plus :: "jsnum \<Rightarrow> jsnum \<Rightarrow> jsnum" where
  "js_plus (Fin a) (Fin b) = Fin (a + b)"
| "js_plus NaN _ = NaN"
| "js_plus _ NaN = NaN"
| "js_plus PInf NInf = NaN"
| "js_plus NInf PInf = NaN"
| "js_plus PInf _ = PInf"
| "js_plus _ PInf = PInf"
| "js_plus NInf _ = NInf"
| "js_plus _ NInf = NInf"

fun js_neg :: "jsnum \<Rightarrow> jsnum" where
  "js_neg (Fin a) = Fin (- a)"
| "js_neg PInf = NInf"
| "js_neg NInf = PInf"
| "js_neg NaN = NaN"

fun inf_times :: "jsnum \<Rightarrow> rat \<Rightarrow> jsnum" where
  "inf_times i b = (if b = 0 then NaN else if 0 < b then i else js_neg i)"

fun js_times :: "jsnum \<Rightarrow> jsnum \<Rightarrow> jsnum" where
  "js_times (Fin a) (Fin b) = Fin (a * b)"
| "js_times NaN _ = NaN"
| "js_times _ NaN = NaN"
| "js_times PInf (Fin b) = inf_times PInf b"
| "js_times NInf (Fin b) = inf_times NInf b"
| "js_times (Fin a) PInf = inf_times PInf a"
| "js_times (Fin a) NInf = inf_times NInf a"
| "js_times PInf PInf = PInf"
| "js_times NInf NInf = PInf"
| "js_times PInf NInf = NInf"
| "js_times NInf PInf = NInf"

text \<open>\<^verbatim>\<open>x || y\<close> on numbers.\<close>

definition num_or :: "jsnum \<Rightarrow> jsnum \<Rightarrow> jsnum" where
  "num_or x y = (if truthy x then x else y)"

text \<open>
  A \<^verbatim>\<open>Date\<close> is an instant.  It is held by its calendar fields in UTC: year, month (0 to
  11, as \<^verbatim>\<open>getUTCMonth\<close> counts), day of the month and the milliseconds since midnight.
  A record stands for an instant when its month is at most 11, its day is a day of that
  month and its milliseconds are at least 0 and fewer than those of a day; the order of two instants is
  then the order of their fields, year first.  These are the fields that
  \<^verbatim>\<open>new Date('2023-01-15')\<close> sets and that \<^verbatim>\<open>toISOString\<close> prints.
\<close>

record jsdate =
  year :: int
  month :: nat
  day :: nat
  ms :: int

definition date_less :: "jsdate \<Rightarrow> jsdate \<Rightarrow> bool" where
  "date_less a b \<longleftrightarrow>
     year a < year b \<or> (year a = year b \<and>
       (month a < month b \<or> (month a = month b \<and>
         (day a < day b \<or> (day a = day b \<and> ms a < ms b)))))"

definition date_ge :: "jsdate \<Rightarrow> jsdate \<Rightarrow> bool" where
  "date_ge a b \<longleftrightarrow> \<not> date_less a b"

definition date_le :: "jsdate \<Rightarrow> jsdate \<Rightarrow> bool" where
  "date_le a b \<longleftrightarrow> \<not> date_less b a"

section \<open>Tables\<close>

datatype extraction_status = Pending | Success | Error

datatype upload_status = Processing | Completed | Failed

record upload_batch =
  batch_id :: int
  batch_filename :: string
  total_files :: int
  processed_files :: int
  failed_files :: int
  status :: upload_status
  batch_created_at :: jsdate
  completed_at :: "jsdate option"

text \<open>
  One record serves for a row of \<^verbatim>\<open>electricity_bills\<close> and for the \<^verbatim>\<open>ElectricityBill\<close>
  object of the handlers: a nullable column is an option.  A numeric column holds a
  number.  The handlers write a number to a column as it is, except for the corrected
  amount that \<^verbatim>\<open>calculateSelicCorrection\<close> writes and returns as read back: there, what the
  column keeps of the number is \<open>numeric_10_2\<close> below.
\<close>

record bill =
  bill_id :: int
  filename :: string
  upload_id :: int
  total_amount :: "jsnum option"
  energy_consumption :: "jsnum option"
  bill_date :: "jsdate option"
  corrected_amount :: "jsnum option"
  extraction_status :: extraction_status
  error_message :: "string option"
  created_at :: jsdate

record selic_rate =
  rate_id :: int
  date :: jsdate
  rate :: jsnum
  rate_created_at :: jsdate

text \<open>
  The module-level database handle, the system clock and the time zone of the process are
  the state every handler runs in: the three tables in row order, the next value of each
  \<^verbatim>\<open>serial\<close> key, the time that \<^verbatim>\<open>new Date()\<close> and \<^verbatim>\<open>defaultNow()\<close> read, and the
  offset of local time from UTC in minutes (-180 for \<^verbatim>\<open>America/Sao_Paulo\<close>), taken as
  fixed: daylight saving is not modelled.
\<close>

record world =
  upload_batches :: "upload_batch list"
  electricity_bills :: "bill list"
  selic_rates :: "selic_rate list"
  next_batch_id :: int
  next_bill_id :: int
  next_rate_id :: int
  clock :: jsdate
  tz_offset :: int

text \<open>
  What a handler throws.  \<open>NumericFieldOverflow\<close> is the database refusing a value that
  a numeric column cannot hold; \<open>NoReturn\<close> stands for a handler that never returns.
\<close>

datatype error =
    BillNotFound int
  | UploadBatchNotFound int
  | CorrectionInputRequired
  | TypeError
  | NumericFieldOverflow
  | NoReturn

section \<open>Printing numbers\<close>

fun digits :: "nat \<Rightarrow> string" where
  "digits n = (if n < 10 then [''0123456789'' ! n]
               else digits (n div 10) @ [''0123456789'' ! (n mod 10)])"

definition show_int :: "int \<Rightarrow> string" where
  "show_int i = (if i < 0 then CHR ''-'' # digits (nat (- i)) else digits (nat i))"

section \<open>uploadZip\<close>

record upload_zip_input =
  in_filename :: string
  file_size :: int
  file_count :: int

record upload_response =
  resp_upload_id :: int
  message :: string
  resp_status :: string

text \<open>The placeholder rows: \<^verbatim>\<open>Array.from({ length: file_count }, ...)\<close> has no element when the count is not positive.\<close>

definition billRecords :: "world \<Rightarrow> int \<Rightarrow> int \<Rightarrow> bill list" where
  "billRecords w uid n =
     map (\<lambda>index. \<lparr> bill_id = next_bill_id w + int index,
                     filename = ''bill_'' @ digits (index + 1) @ ''.pdf'',
                     upload_id = uid,
                     total_amount = None, energy_consumption = None, bill_date = None,
                     corrected_amount = None, extraction_status = Pending,
                     error_message = None, created_at = clock w \<rparr>)
         [0 ..< nat n]"

definition uploadZip :: "world \<Rightarrow> upload_zip_input \<Rightarrow> (error + upload_response) \<times> world" where
  "uploadZip w input =
     (let uploadBatch = \<lparr> batch_id = next_batch_id w, batch_filename = in_filename input,
                           total_files = file_count input, processed_files = 0,
                           failed_files = 0, status = Processing,
                           batch_created_at = clock w, completed_at = None \<rparr>;
          w1 = w\<lparr> upload_batches := upload_batches w @ [uploadBatch],
                   next_batch_id := next_batch_id w + 1 \<rparr>;
          rows = billRecords w1 (batch_id uploadBatch) (file_count input);
          w2 = (if length rows > 0
                then w1\<lparr> electricity_bills := electricity_bills w1 @ rows,
                          next_bill_id := next_bill_id w1 + int (length rows) \<rparr>
                else w1)
      in (Inr \<lparr> resp_upload_id = batch_id uploadBatch,
                 message = ''ZIP file '' @ in_filename input
                           @ '' uploaded successfully. Processing ''
                           @ show_int (file_count input) @ '' files.'',
                 resp_status = ''processing'' \<rparr>, w2))"

section \<open>updateUploadBatchProgress and updateBillResult\<close>

definition updateUploadBatchProgress :: "world \<Rightarrow> int \<Rightarrow> bool \<Rightarrow> (error + unit) \<times> world" where
  "updateUploadBatchProgress w uploadId isSuccess =
     (case filter (\<lambda>b. batch_id b = uploadId) (upload_batches w) of
        [] \<Rightarrow> (Inl (UploadBatchNotFound uploadId), w)
      | batch # _ \<Rightarrow>
          (let newProcessedFiles = processed_files batch + 1;
               newFailedFiles = failed_files batch + (if isSuccess then 0 else 1);
               isComplete = (newProcessedFiles \<ge> total_files batch);
               newStatus = (if isComplete then Completed else Processing);
               upd = (\<lambda>b. if batch_id b = uploadId
                          then (let b1 = b\<lparr> processed_files := newProcessedFiles,
                                           failed_files := newFailedFiles,
                                           status := newStatus \<rparr>
                                in if isComplete then b1\<lparr> completed_at := Some (clock w) \<rparr> else b1)
                          else b)
           in (Inr (), w\<lparr> upload_batches := map upd (upload_batches w) \<rparr>)))"

text \<open>
  The input of \<^verbatim>\<open>updateBillResult\<close>: an optional field is \<open>None\<close> when it is \<^verbatim>\<open>undefined\<close>;
  the two nullable optional fields are \<open>Some None\<close> when they are \<^verbatim>\<open>null\<close>.
\<close>

record update_bill_result_input =
  in_id :: int
  in_total_amount :: "jsnum option"
  in_energy_consumption :: "jsnum option"
  in_bill_date :: "jsdate option"
  in_corrected_amount :: "jsnum option option"
  in_extraction_status :: extraction_status
  in_error_message :: "string option option"

definition updateData :: "update_bill_result_input \<Rightarrow> bill \<Rightarrow> bill" where
  "updateData input r =
     (let r1 = r\<lparr> extraction_status := in_extraction_status input \<rparr>;
          r2 = (case in_total_amount input of None \<Rightarrow> r1
                | Some x \<Rightarrow> r1\<lparr> total_amount := Some x \<rparr>);
          r3 = (case in_energy_consumption input of None \<Rightarrow> r2
                | Some x \<Rightarrow> r2\<lparr> energy_consumption := Some x \<rparr>);
          r4 = (case in_bill_date input of None \<Rightarrow> r3
                | Some d \<Rightarrow> r3\<lparr> bill_date := Some d \<rparr>);
          r5 = (case in_corrected_amount input of None \<Rightarrow> r4
                | Some None \<Rightarrow> r4\<lparr> corrected_amount := None \<rparr>
                | Some (Some x) \<Rightarrow>
                    r4\<lparr> corrected_amount := (if truthy x then Some x else None) \<rparr>)
      in (case in_error_message input of None \<Rightarrow> r5
          | Some m \<Rightarrow> r5\<lparr> error_message := m \<rparr>))"

text \<open>The conversion of a row on return: absent numbers read as 0, an absent date as now.\<close>

definition or_zero :: "jsnum option \<Rightarrow> jsnum option" where
  "or_zero x = (case x of None \<Rightarrow> Some (Fin 0) | Some v \<Rightarrow> Some v)"

definition or_now :: "world \<Rightarrow> jsdate option \<Rightarrow> jsdate option" where
  "or_now w d = (case d of None \<Rightarrow> Some (clock w) | Some v \<Rightarrow> Some v)"

definition converted :: "world \<Rightarrow> bill \<Rightarrow> bill" where
  "converted w r = r\<lparr> total_amount := or_zero (total_amount r),
                       energy_consumption := or_zero (energy_consumption r),
                       bill_date := or_now w (bill_date r) \<rparr>"

definition updateBillResult :: "world \<Rightarrow> update_bill_result_input \<Rightarrow> (error + bill) \<times> world" where
  "updateBillResult w input =
     (case filter (\<lambda>r. bill_id r = in_id input) (electricity_bills w) of
        [] \<Rightarrow> (Inl (BillNotFound (in_id input)), w)
      | existingBill # _ \<Rightarrow>
          (let upd = (\<lambda>r. if bill_id r = in_id input then updateData input r else r);
               w1 = w\<lparr> electricity_bills := map upd (electricity_bills w) \<rparr>;
               updatedBill = updateData input existingBill;
               wasSuccessful = (in_extraction_status input = Success);
               wasPending = (extraction_status existingBill = Pending)
           in if wasPending
              then (case updateUploadBatchProgress w1 (upload_id existingBill) wasSuccessful of
                      (Inl e, w2) \<Rightarrow> (Inl e, w2)
                    | (Inr _, w2) \<Rightarrow> (Inr (converted w2 updatedBill), w2))
              else (Inr (converted w1 updatedBill), w1)))"

section \<open>processBill\<close>

text \<open>
  Strings are lists of bytes.  \<^verbatim>\<open>toLowerCase\<close> is modelled on the ASCII letters, which is
  where the extensions tested below live, and the first 1000 bytes of the buffer are
  searched as they are: the markers are ASCII, so decoding the bytes as UTF-8 first does
  not change whether they occur.
\<close>

definition to_lower :: "char \<Rightarrow> char" where
  "to_lower c = (if (65::nat) \<le> of_char c \<and> of_char c \<le> (90::nat)
                 then char_of (of_char c + (32::nat)) else c)"

definition toLowerCase :: "string \<Rightarrow> string" where
  "toLowerCase s = map to_lower s"

text \<open>\<^verbatim>\<open>s.split(sep)\<close> for a one-character separator: never the empty list.\<close>

fun split :: "char \<Rightarrow> string \<Rightarrow> string list" where
  "split sep [] = [[]]"
| "split sep (c # cs) =
     (if c = sep then [] # split sep cs
      else (case split sep cs of [] \<Rightarrow> [[c]] | x # xs \<Rightarrow> (c # x) # xs))"

text \<open>\<^verbatim>\<open>xs.pop()\<close>: the last element, \<^verbatim>\<open>undefined\<close> on the empty array.\<close>

definition pop :: "'a list \<Rightarrow> 'a option" where
  "pop xs = (case rev xs of [] \<Rightarrow> None | x # _ \<Rightarrow> Some x)"

fun str_includes :: "string \<Rightarrow> string \<Rightarrow> bool" where
  "str_includes [] pat = (pat = [])"
| "str_includes (c # cs) pat = (take (length pat) (c # cs) = pat \<or> str_includes cs pat)"

record process_bill_input =
  in_upload_id :: int
  in_bill_filename :: string
  file_buffer :: string

record extracted_data =
  ex_total_amount :: jsnum
  ex_energy_consumption :: jsnum
  ex_bill_date :: jsdate

text \<open>The simulated extractions: \<open>Inl\<close> carries the message of the \<^verbatim>\<open>Error\<close> thrown.\<close>

definition extractFromPDF :: "string \<Rightarrow> string + extracted_data" where
  "extractFromPDF buffer =
     (let content = take 1000 buffer
      in if str_includes content ''INVALID_PDF'' then Inl ''Invalid PDF format''
         else if str_includes content ''CORRUPTED_DATA'' then Inl ''Corrupted PDF data''
         else Inr \<lparr> ex_total_amount =
                      (if str_includes content ''TEST_AMOUNT'' then Fin (15678 / 100)
                       else Fin (12345 / 100)),
                    ex_energy_consumption =
                      (if str_includes content ''TEST_CONSUMPTION'' then Fin 234 else Fin 180),
                    ex_bill_date =
                      (if str_includes content ''TEST_DATE''
                       then \<lparr> year = 2023, month = 7, day = 15, ms = 0 \<rparr>
                       else \<lparr> year = 2023, month = 6, day = 15, ms = 0 \<rparr>) \<rparr>)"

definition extractFromImage :: "string \<Rightarrow> string + extracted_data" where
  "extractFromImage buffer =
     (let content = take 1000 buffer
      in if str_includes content ''UNREADABLE_IMAGE'' then Inl ''Image text is unreadable''
         else if str_includes content ''LOW_QUALITY'' then Inl ''Image quality too low for OCR''
         else Inr \<lparr> ex_total_amount =
                      (if str_includes content ''OCR_AMOUNT'' then Fin (9876 / 100)
                       else Fin (8765 / 100)),
                    ex_energy_consumption =
                      (if str_includes content ''OCR_CONSUMPTION'' then Fin 156 else Fin 145),
                    ex_bill_date =
                      (if str_includes content ''OCR_DATE''
                       then \<lparr> year = 2023, month = 8, day = 20, ms = 0 \<rparr>
                       else \<lparr> year = 2023, month = 5, day = 20, ms = 0 \<rparr>) \<rparr>)"

text \<open>The body of the inner \<^verbatim>\<open>try\<close> up to the extracted data.\<close>

definition extraction :: "process_bill_input \<Rightarrow> string + extracted_data" where
  "extraction input =
     (let fileExtension = pop (split CHR ''.'' (toLowerCase (in_bill_filename input)))
      in if fileExtension = Some ''pdf'' then extractFromPDF (file_buffer input)
         else if (case fileExtension of None \<Rightarrow> [] | Some e \<Rightarrow> e)
                   \<in> set [''jpg'', ''jpeg'', ''png'', ''tiff'', ''bmp'']
         then extractFromImage (file_buffer input)
         else Inl (''Unsupported file type: ''
                   @ (case fileExtension of None \<Rightarrow> ''undefined'' | Some e \<Rightarrow> e)))"

text \<open>
  The row returned by an update is the first one with the key.  The row was inserted just
  before, so there is one; were there none, reading a field of \<^verbatim>\<open>undefined\<close> would throw.
\<close>

definition processBill :: "world \<Rightarrow> process_bill_input \<Rightarrow> (error + bill) \<times> world" where
  "processBill w input =
     (case filter (\<lambda>b. batch_id b = in_upload_id input) (upload_batches w) of
        [] \<Rightarrow> (Inl (UploadBatchNotFound (in_upload_id input)), w)
      | _ # _ \<Rightarrow>
          (let billId = next_bill_id w;
               row = \<lparr> bill_id = billId, filename = in_bill_filename input,
                       upload_id = in_upload_id input,
                       total_amount = None, energy_consumption = None, bill_date = None,
                       corrected_amount = None, extraction_status = Pending,
                       error_message = None, created_at = clock w \<rparr>;
               w1 = w\<lparr> electricity_bills := electricity_bills w @ [row],
                        next_bill_id := next_bill_id w + 1 \<rparr>;
               set_row = (case extraction input of
                   Inr extractedData \<Rightarrow>
                     (\<lambda>r. r\<lparr> total_amount := Some (ex_total_amount extractedData),
                              energy_consumption := Some (ex_energy_consumption extractedData),
                              bill_date := Some (ex_bill_date extractedData),
                              extraction_status := Success,
                              error_message := None \<rparr>)
                 | Inl errorMessage \<Rightarrow>
                     (\<lambda>r. r\<lparr> extraction_status := Error,
                              error_message := Some errorMessage \<rparr>));
               w2 = w1\<lparr> electricity_bills :=
                          map (\<lambda>r. if bill_id r = billId then set_row r else r)
                              (electricity_bills w1) \<rparr>
           in (case filter (\<lambda>r. bill_id r = billId) (electricity_bills w2) of
                 [] \<Rightarrow> (Inl TypeError, w2)
               | result # _ \<Rightarrow> (Inr (converted w2 result), w2))))"

section \<open>generateReport\<close>

datatype report_format = Excel | Csv

record generate_report_input =
  gr_upload_id :: int
  format :: report_format

record summary =
  total_bills :: nat
  successful_extractions :: nat
  failed_extractions :: nat
  total_original_amount :: jsnum
  total_corrected_amount :: jsnum
  total_energy_consumption :: jsnum

record consolidated_report =
  bills :: "bill list"
  summary :: summary

text \<open>\<^verbatim>\<open>x || y\<close> where \<^verbatim>\<open>x\<close> may be \<^verbatim>\<open>null\<close>.\<close>

definition opt_or :: "jsnum option \<Rightarrow> jsnum \<Rightarrow> jsnum" where
  "opt_or x y = (case x of None \<Rightarrow> y | Some v \<Rightarrow> num_or v y)"

text \<open>\<^verbatim>\<open>xs.reduce((sum, x) => sum + f(x), 0)\<close>.\<close>

definition reduce_sum :: "('a \<Rightarrow> jsnum) \<Rightarrow> 'a list \<Rightarrow> jsnum" where
  "reduce_sum f xs = foldl (\<lambda>sum x. js_plus sum (f x)) (Fin 0) xs"

definition generateReport :: "world \<Rightarrow> generate_report_input \<Rightarrow> error + consolidated_report" where
  "generateReport w input =
     (case filter (\<lambda>b. batch_id b = gr_upload_id input) (upload_batches w) of
        [] \<Rightarrow> Inl (UploadBatchNotFound (gr_upload_id input))
      | _ # _ \<Rightarrow>
          (let rows = filter (\<lambda>r. upload_id r = gr_upload_id input) (electricity_bills w);
               convertedBills = map (converted w) rows;
               totalBills = length convertedBills;
               successfulExtractions =
                 length (filter (\<lambda>r. extraction_status r = Success) convertedBills);
               failedExtractions =
                 length (filter (\<lambda>r. extraction_status r = Error) convertedBills);
               successfulBills = filter (\<lambda>r. extraction_status r = Success) convertedBills;
               totalOriginalAmount =
                 reduce_sum (\<lambda>r. opt_or (total_amount r) (Fin 0)) successfulBills;
               totalCorrectedAmount =
                 reduce_sum (\<lambda>r. opt_or (corrected_amount r) (opt_or (total_amount r) (Fin 0)))
                   successfulBills;
               totalEnergyConsumption =
                 reduce_sum (\<lambda>r. opt_or (energy_consumption r) (Fin 0)) successfulBills
           in Inr \<lparr> bills = convertedBills,
                    summary = \<lparr> total_bills = totalBills,
                                successful_extractions = successfulExtractions,
                                failed_extractions = failedExtractions,
                                total_original_amount = totalOriginalAmount,
                                total_corrected_amount = totalCorrectedAmount,
                                total_energy_consumption = totalEnergyConsumption \<rparr> \<rparr>))"

section \<open>calculateSelicCorrection\<close>

text \<open>
  Local time.  \<^verbatim>\<open>getFullYear\<close>, \<^verbatim>\<open>getMonth\<close> and \<^verbatim>\<open>setMonth\<close> read and write the fields of
  the instant in the time zone of the process: the fields of the instant moved by the
  offset of the zone, which may fall on the day before or after.
\<close>

definition leap_year :: "int \<Rightarrow> bool" where
  "leap_year y \<longleftrightarrow> (y mod 4 = 0 \<and> y mod 100 \<noteq> 0) \<or> y mod 400 = 0"

definition days_in_month :: "int \<Rightarrow> nat \<Rightarrow> nat" where
  "days_in_month y m =
     (if m = 1 then (if leap_year y then 29 else 28)
      else if m = 3 \<or> m = 5 \<or> m = 8 \<or> m = 10 then 30 else 31)"

definition month_after :: "int \<times> nat \<Rightarrow> int \<times> nat" where
  "month_after ym = (if snd ym \<ge> 11 then (fst ym + 1, 0) else (fst ym, snd ym + 1))"

definition month_before :: "int \<times> nat \<Rightarrow> int \<times> nat" where
  "month_before ym = (if snd ym = 0 then (fst ym - 1, 11) else (fst ym, snd ym - 1))"

definition next_day :: "jsdate \<Rightarrow> jsdate" where
  "next_day d =
     (if day d < days_in_month (year d) (month d) then d\<lparr> day := day d + 1 \<rparr>
      else (let ym = month_after (year d, month d)
            in d\<lparr> year := fst ym, month := snd ym, day := 1 \<rparr>))"

definition prev_day :: "jsdate \<Rightarrow> jsdate" where
  "prev_day d =
     (if 1 < day d then d\<lparr> day := day d - 1 \<rparr>
      else (let ym = month_before (year d, month d)
            in d\<lparr> year := fst ym, month := snd ym,
                   day := days_in_month (fst ym) (snd ym) \<rparr>))"

definition day_ms :: int where
  "day_ms = 86400000"

definition add_ms :: "int \<Rightarrow> jsdate \<Rightarrow> jsdate" where
  "add_ms delta d =
     (let total = ms d + delta;
          k = total div day_ms;
          d' = d\<lparr> ms := total mod day_ms \<rparr>
      in if 0 \<le> k then (next_day ^^ nat k) d' else (prev_day ^^ nat (- k)) d')"

definition local_time :: "int \<Rightarrow> jsdate \<Rightarrow> jsdate" where
  "local_time tz d = add_ms (tz * 60000) d"

definition utc_time :: "int \<Rightarrow> jsdate \<Rightarrow> jsdate" where
  "utc_time tz d = add_ms (- (tz * 60000)) d"

text \<open>
  \<^verbatim>\<open>current.setMonth(current.getMonth() + 1)\<close>: in local time, the month after, in the next
  year after December, with the day of the month and the time kept.  A day that the new
  month does not have runs over into the month after it (31 January becomes 3 March, or
  2 March in a leap year).
\<close>

definition month_of :: "jsdate \<Rightarrow> int \<times> nat" where
  "month_of d = (year d, month d)"

definition next_month_fields :: "jsdate \<Rightarrow> jsdate" where
  "next_month_fields d =
     (let ym1 = month_after (month_of d);
          dim = days_in_month (fst ym1) (snd ym1)
      in if day d \<le> dim then d\<lparr> year := fst ym1, month := snd ym1 \<rparr>
         else (let ym2 = month_after ym1
               in d\<lparr> year := fst ym2, month := snd ym2, day := day d - dim \<rparr>))"

definition setMonth_next :: "int \<Rightarrow> jsdate \<Rightarrow> jsdate" where
  "setMonth_next tz d = utc_time tz (next_month_fields (local_time tz d))"

text \<open>
  The map from month keys to rates: the key \<^verbatim>\<open>`${getFullYear()}-${getMonth()}`\<close> is held as
  the pair of the year and the month of local time; a later rate of the same month
  replaces an earlier one.
\<close>

definition monthKey :: "int \<Rightarrow> jsdate \<Rightarrow> int \<times> nat" where
  "monthKey tz d = month_of (local_time tz d)"

definition monthlyRates_of :: "int \<Rightarrow> selic_rate list \<Rightarrow> (int \<times> nat \<rightharpoonup> jsnum)" where
  "monthlyRates_of tz selicRates =
     foldl (\<lambda>m r. m(monthKey tz (date r) \<mapsto> rate r)) Map.empty selicRates"

text \<open>
  The \<^verbatim>\<open>while (current < end)\<close> loop, with the factor accumulated so far.  The result is
  \<open>None\<close> when the loop does not end.
\<close>

partial_function (option) correction_loop ::
  "int \<Rightarrow> (int \<times> nat \<rightharpoonup> jsnum) \<Rightarrow> jsdate \<Rightarrow> jsdate \<Rightarrow> jsnum \<Rightarrow> jsnum option" where
  "correction_loop tz monthlyRates current end_date correctionFactor =
     (if date_less current end_date
      then (let monthlyRate = opt_or (monthlyRates (monthKey tz current)) (Fin 0)
            in correction_loop tz monthlyRates (setMonth_next tz current) end_date
                 (js_times correctionFactor (js_plus (Fin 1) monthlyRate)))
      else Some correctionFactor)"

declare correction_loop.simps [code]

definition calculateAccumulatedCorrection ::
  "int \<Rightarrow> selic_rate list \<Rightarrow> jsdate \<Rightarrow> jsdate \<Rightarrow> jsnum option" where
  "calculateAccumulatedCorrection tz selicRates startDate endDate =
     (if selicRates = [] then Some (Fin 1)
      else correction_loop tz (monthlyRates_of tz selicRates) startDate endDate (Fin 1))"

text \<open>
  \<^verbatim>\<open>getSelicRatesForPeriod\<close>: the rates dated from \<^verbatim>\<open>startDate\<close> to \<^verbatim>\<open>endDate\<close>, both
  included, in ascending order of date (rows of the same date keep their table order).
\<close>

fun insert_by_date :: "selic_rate \<Rightarrow> selic_rate list \<Rightarrow> selic_rate list" where
  "insert_by_date r [] = [r]"
| "insert_by_date r (x # xs) =
     (if date_less (date r) (date x) then r # x # xs else x # insert_by_date r xs)"

definition order_by_date :: "selic_rate list \<Rightarrow> selic_rate list" where
  "order_by_date rs = foldl (\<lambda>acc r. insert_by_date r acc) [] rs"

definition getSelicRatesForPeriod :: "world \<Rightarrow> jsdate \<Rightarrow> jsdate \<Rightarrow> selic_rate list" where
  "getSelicRatesForPeriod w startDate endDate =
     order_by_date (filter (\<lambda>r. date_ge (date r) startDate \<and> date_le (date r) endDate)
                           (selic_rates w))"

text \<open>
  The column \<^verbatim>\<open>corrected_amount\<close> is \<^verbatim>\<open>numeric(10, 2)\<close>.  A finite number written to it is
  rounded to two decimals, a half away from zero, and refused when the rounded value has
  more than eight digits before the point; an infinity is refused; NaN is kept.  \<open>None\<close>
  is the refusal, on which the database raises.
\<close>

definition round2 :: "rat \<Rightarrow> rat" where
  "round2 r = (if 0 \<le> r then of_int \<lfloor>r * 100 + 1 / 2\<rfloor> / 100
               else - (of_int \<lfloor>- r * 100 + 1 / 2\<rfloor> / 100))"

fun numeric_10_2 :: "jsnum \<Rightarrow> jsnum option" where
  "numeric_10_2 (Fin r) = (if \<bar>round2 r\<bar> < 100000000 then Some (Fin (round2 r)) else None)"
| "numeric_10_2 PInf = None"
| "numeric_10_2 NInf = None"
| "numeric_10_2 NaN = Some NaN"

text \<open>
  The update that ends each of the three branches: the corrected amount is written to the
  rows of the bill's id, and the first row returned is converted, its corrected amount
  read back from the column.  Without such a row a field of \<^verbatim>\<open>undefined\<close> is read, which
  throws.
\<close>

definition store_corrected :: "world \<Rightarrow> bill \<Rightarrow> jsnum \<Rightarrow> (error + bill) \<times> world" where
  "store_corrected w b amount =
     (case numeric_10_2 amount of
        None \<Rightarrow> (Inl NumericFieldOverflow, w)
      | Some kept \<Rightarrow>
          (let w1 = w\<lparr> electricity_bills :=
                        map (\<lambda>r. if bill_id r = bill_id b
                                 then r\<lparr> corrected_amount := Some kept \<rparr> else r)
                            (electricity_bills w) \<rparr>
           in (case filter (\<lambda>r. bill_id r = bill_id b) (electricity_bills w1) of
                 [] \<Rightarrow> (Inl TypeError, w1)
               | updatedBill # _ \<Rightarrow>
                   (Inr ((converted w1 updatedBill)
                           \<lparr> corrected_amount := or_zero (corrected_amount updatedBill) \<rparr>),
                    w1))))"

text \<open>
  The current date is the clock, and the time zone is that of the process.  A walk that
  does not end leaves the handler without a result.
\<close>

definition calculateSelicCorrection :: "world \<Rightarrow> bill \<Rightarrow> (error + bill) \<times> world" where
  "calculateSelicCorrection w b =
     (case (bill_date b, total_amount b) of
        (None, _) \<Rightarrow> (Inl CorrectionInputRequired, w)
      | (Some _, None) \<Rightarrow> (Inl CorrectionInputRequired, w)
      | (Some billDate, Some amount) \<Rightarrow>
          if \<not> truthy amount then (Inl CorrectionInputRequired, w)
          else (let currentDate = clock w
                in if date_ge billDate currentDate then store_corrected w b amount
                   else (let selicRates = getSelicRatesForPeriod w billDate currentDate
                         in if selicRates = [] then store_corrected w b amount
                            else (case calculateAccumulatedCorrection (tz_offset w)
                                         selicRates billDate currentDate of
                                    None \<Rightarrow> (Inl NoReturn, w)
                                  | Some correctionFactor \<Rightarrow>
                                      store_corrected w b (js_times amount correctionFactor)))))"

section \<open>Months walked by the correction\<close>

text \<open>
  The notions in which the walk of \<^verbatim>\<open>calculateAccumulatedCorrection\<close> is described: the
  number of a month on the time line, the months that follow a given one, the months from
  that of one date up to, and not including, that of another, the position of a date
  within its month, the rate that the map holds for a month (the last of the rates with
  that key, 0 when there is none), and the compounding of a list of rates.
\<close>

definition month_index :: "int \<times> nat \<Rightarrow> int" where
  "month_index ym = fst ym * 12 + int (snd ym)"

fun months_from :: "int \<times> nat \<Rightarrow> nat \<Rightarrow> (int \<times> nat) list" where
  "months_from ym 0 = []"
| "months_from ym (Suc n) = ym # months_from (month_after ym) n"





section \<open>loadSelicData\<close>

text \<open>
  \<^verbatim>\<open>trim\<close> on the ASCII white space (tab, line feed, vertical tab, form feed, carriage
  return, space).
\<close>

definition is_space :: "char \<Rightarrow> bool" where
  "is_space c \<longleftrightarrow> (of_char c :: nat) \<in> {9, 10, 11, 12, 13, 32}"

definition trim :: "string \<Rightarrow> string" where
  "trim s = rev (dropWhile is_space (rev (dropWhile is_space s)))"

text \<open>
  The key of a date among the existing dates, \<^verbatim>\<open>date.toISOString().split('T')[0]\<close>: the
  calendar day, held as the year, the month and the day.
\<close>

definition dateKey :: "jsdate \<Rightarrow> int \<times> nat \<times> nat" where
  "dateKey d = (year d, month d, day d)"

record load_state =
  loaded :: nat
  skipped :: nat
  errors :: nat
  existingDates :: "(int \<times> nat \<times> nat) list"
  db :: world

text \<open>
  The readers \<^verbatim>\<open>new Date(dateStr)\<close> and \<^verbatim>\<open>parseFloat(rateStr)\<close> are the language's and are
  parameters here: \<open>parseDate\<close> returns \<open>None\<close> for an invalid date (one whose
  \<^verbatim>\<open>getTime()\<close> is NaN).  So is the database's verdict on a row, \<open>accepts\<close>: an insert that
  it refuses throws, and the \<^verbatim>\<open>catch\<close> of the loop body counts an error.
\<close>

definition insert_rate ::
  "(jsdate \<Rightarrow> jsnum \<Rightarrow> bool) \<Rightarrow> world \<Rightarrow> jsdate \<Rightarrow> jsnum \<Rightarrow> world option" where
  "insert_rate accepts w d r =
     (if accepts d r
      then Some (w\<lparr> selic_rates := selic_rates w
                        @ [\<lparr> rate_id = next_rate_id w, date = d, rate = r,
                              rate_created_at = clock w \<rparr>],
                     next_rate_id := next_rate_id w + 1 \<rparr>)
      else None)"

text \<open>The body of the loop over the data lines.\<close>

definition process_line ::
  "(string \<Rightarrow> jsdate option) \<Rightarrow> (string \<Rightarrow> jsnum) \<Rightarrow> (jsdate \<Rightarrow> jsnum \<Rightarrow> bool)
     \<Rightarrow> load_state \<Rightarrow> string \<Rightarrow> load_state" where
  "process_line parseDate parseFloat accepts st line =
     (case map trim (split CHR '','' line) of
        dateStr # rateStr # _ \<Rightarrow>
          if dateStr = [] \<or> rateStr = [] then st\<lparr> errors := errors st + 1 \<rparr>
          else (let rate = parseFloat rateStr
                in case parseDate dateStr of
                     None \<Rightarrow> st\<lparr> errors := errors st + 1 \<rparr>
                   | Some date' \<Rightarrow>
                       if isNaN rate then st\<lparr> errors := errors st + 1 \<rparr>
                       else if dateKey date' \<in> set (existingDates st)
                       then st\<lparr> skipped := skipped st + 1 \<rparr>
                       else (case insert_rate accepts (db st) date' rate of
                               None \<Rightarrow> st\<lparr> errors := errors st + 1 \<rparr>
                             | Some w' \<Rightarrow>
                                 st\<lparr> db := w',
                                     existingDates := existingDates st @ [dateKey date'],
                                     loaded := loaded st + 1 \<rparr>))
      | _ \<Rightarrow> st\<lparr> errors := errors st + 1 \<rparr>)"

text \<open>The lines of the file that are not blank, without the header row.\<close>

definition dataLines :: "string \<Rightarrow> string list" where
  "dataLines csvContent =
     drop 1 (filter (\<lambda>line. trim line \<noteq> []) (split (CHR 0x0A) csvContent))"

record load_result =
  res_loaded :: nat
  res_skipped :: nat
  res_errors :: nat

text \<open>The file is \<open>None\<close> when \<^verbatim>\<open>data/selic_rates.csv\<close> does not exist.\<close>

definition loadSelicData ::
  "(string \<Rightarrow> jsdate option) \<Rightarrow> (string \<Rightarrow> jsnum) \<Rightarrow> (jsdate \<Rightarrow> jsnum \<Rightarrow> bool)
     \<Rightarrow> world \<Rightarrow> string option \<Rightarrow> load_result \<times> world" where
  "loadSelicData parseDate parseFloat accepts w csvFile =
     (case csvFile of
        None \<Rightarrow> (\<lparr> res_loaded = 0, res_skipped = 0, res_errors = 1 \<rparr>, w)
      | Some csvContent \<Rightarrow>
          (let st = foldl (process_line parseDate parseFloat accepts)
                      \<lparr> loaded = 0, skipped = 0, errors = 0,
                        existingDates = map (\<lambda>r. dateKey (date r)) (selic_rates w),
                        db = w \<rparr>
                      (dataLines csvContent)
           in (\<lparr> res_loaded = loaded st, res_skipped = skipped st, res_errors = errors st \<rparr>,
               db st)))"

text \<open>
  The outcome of a line in the words of the specification.  A line is well formed when it
  has a date cell and a rate cell, neither empty, that read as a valid date and as a number
  other than NaN.  A line that is not counts as an error; a well-formed line whose day is
  among the existing dates is skipped; any other is inserted and counted as loaded, or as
  an error when the database refuses the row.
\<close>

definition parse_line ::
  "(string \<Rightarrow> jsdate option) \<Rightarrow> (string \<Rightarrow> jsnum) \<Rightarrow> string \<Rightarrow> (jsdate \<times> jsnum) option" where
  "parse_line parseDate parseFloat line =
     (case map trim (split CHR '','' line) of
        dateStr # rateStr # _ \<Rightarrow>
          if dateStr = [] \<or> rateStr = [] \<or> isNaN (parseFloat rateStr) then None
          else map_option (\<lambda>d. (d, parseFloat rateStr)) (parseDate dateStr)
      | _ \<Rightarrow> None)"

definition line_outcome ::
  "(string \<Rightarrow> jsdate option) \<Rightarrow> (string \<Rightarrow> jsnum) \<Rightarrow> (jsdate \<Rightarrow> jsnum \<Rightarrow> bool)
     \<Rightarrow> load_state \<Rightarrow> string \<Rightarrow> load_state" where
  "line_outcome parseDate parseFloat accepts st line =
     (case parse_line parseDate parseFloat line of
        None \<Rightarrow> st\<lparr> errors := errors st + 1 \<rparr>
      | Some (d, r) \<Rightarrow>
          if dateKey d \<in> set (existingDates st) then st\<lparr> skipped := skipped st + 1 \<rparr>
          else (case insert_rate accepts (db st) d r of
                  None \<Rightarrow> st\<lparr> errors := errors st + 1 \<rparr>
                | Some w' \<Rightarrow> st\<lparr> db := w',
                                  existingDates := existingDates st @ [dateKey d],
                                  loaded := loaded st + 1 \<rparr>))"

section \<open>Example states\<close>

definition t0 :: jsdate where "t0 = \<lparr> year = 2024, month = 0, day = 10, ms = 0 \<rparr>"
definition t1 :: jsdate where "t1 = \<lparr> year = 2024, month = 0, day = 11, ms = 0 \<rparr>"
definition t2 :: jsdate where "t2 = \<lparr> year = 2024, month = 0, day = 12, ms = 0 \<rparr>"

definition world0 :: world where
  "world0 = \<lparr> upload_batches = [], electricity_bills = [], selic_rates = [],
              next_batch_id = 1, next_bill_id = 1, next_rate_id = 1, clock = t0,
              tz_offset = 0 \<rparr>"

definition at_time :: "jsdate \<Rightarrow> world \<Rightarrow> world" where
  "at_time t w = w\<lparr> clock := t \<rparr>"

definition empty_zip :: upload_zip_input where
  "empty_zip = \<lparr> in_filename = ''empty.zip'', file_size = 1024, file_count = 0 \<rparr>"

definition single_zip :: upload_zip_input where
  "single_zip = \<lparr> in_filename = ''single_bill.zip'', file_size = 512000, file_count = 1 \<rparr>"

text \<open>A batch of one file, its outcome recorded at \<open>t1\<close>, and a further outcome recorded at \<open>t2\<close>.\<close>

definition uploaded1 :: world where
  "uploaded1 = snd (uploadZip world0 single_zip)"

definition recorded1 :: world where
  "recorded1 = snd (updateUploadBatchProgress (at_time t1 uploaded1) 1 True)"

definition recorded2 :: world where
  "recorded2 = snd (updateUploadBatchProgress (at_time t2 recorded1) 1 True)"

definition example_batch :: upload_batch where
  "example_batch = \<lparr> batch_id = 1, batch_filename = ''single_bill.zip'', total_files = 1,
       processed_files = 0, failed_files = 0, status = Processing,
       batch_created_at = t0, completed_at = None \<rparr>"

definition example_bill :: bill where
  "example_bill = \<lparr> bill_id = 1, filename = ''bill_1.pdf'', upload_id = 1,
       total_amount = None, energy_consumption = None, bill_date = None,
       corrected_amount = None, extraction_status = Pending, error_message = None,
       created_at = t0 \<rparr>"




text \<open>A PDF whose extraction succeeds and one whose extraction fails, for the example batch.\<close>

definition good_pdf :: process_bill_input where
  "good_pdf = \<lparr> in_upload_id = 1, in_bill_filename = ''test_bill.pdf'',
       file_buffer = ''Sample PDF content'' \<rparr>"

definition bad_pdf :: process_bill_input where
  "bad_pdf = \<lparr> in_upload_id = 1, in_bill_filename = ''Invalid.PDF'',
       file_buffer = ''INVALID_PDF content'' \<rparr>"

text \<open>
  A completed batch of three bills: two successes, of amounts 100 and 200 corrected to 110
  and 210, and one error.  And a batch whose only bill succeeded with amount 100 and a
  stored corrected amount of 0.
\<close>

definition report_bill :: "int \<Rightarrow> extraction_status \<Rightarrow> jsnum option \<Rightarrow> jsnum option \<Rightarrow> bill" where
  "report_bill i st amount corrected =
     \<lparr> bill_id = i, filename = ''bill.pdf'', upload_id = 1,
       total_amount = amount, energy_consumption = map_option (\<lambda>_. Fin 150) amount,
       bill_date = map_option (\<lambda>_. t0) amount, corrected_amount = corrected,
       extraction_status = st,
       error_message = (if st = Error then Some ''Failed to extract data'' else None),
       created_at = t0 \<rparr>"

definition report_world :: world where
  "report_world = world0\<lparr>
     upload_batches := [example_batch\<lparr> total_files := 3, processed_files := 3,
                                       failed_files := 1, status := Completed \<rparr>],
     electricity_bills := [report_bill 1 Success (Some (Fin 100)) (Some (Fin 110)),
                           report_bill 2 Success (Some (Fin 200)) (Some (Fin 210)),
                           report_bill 3 Error None None] \<rparr>"

definition zero_corrected_world :: world where
  "zero_corrected_world = world0\<lparr>
     upload_batches := [example_batch\<lparr> processed_files := 1, status := Completed \<rparr>],
     electricity_bills := [report_bill 1 Success (Some (Fin 100)) (Some (Fin 0))] \<rparr>"

definition report_input :: generate_report_input where
  "report_input = \<lparr> gr_upload_id = 1, format = Csv \<rparr>"

text \<open>
  Dates at midnight UTC, rates, and a bill of 1000 dated 1 January 2023 with rates of 1%
  for January and for February 2023.  A second state holds a bill dated 5 March 2023, a
  single rate of 1% dated 10 March 2023, and a clock that reads 20 March 2023.
\<close>

definition ymd :: "int \<Rightarrow> nat \<Rightarrow> nat \<Rightarrow> jsdate" where
  "ymd y m dd = \<lparr> year = y, month = m, day = dd, ms = 0 \<rparr>"

definition selic :: "int \<Rightarrow> jsdate \<Rightarrow> rat \<Rightarrow> selic_rate" where
  "selic i dt r = \<lparr> rate_id = i, date = dt, rate = Fin r, rate_created_at = t0 \<rparr>"

definition bill_of :: "jsnum \<Rightarrow> jsdate \<Rightarrow> bill" where
  "bill_of amount dt =
     \<lparr> bill_id = 1, filename = ''test-bill.pdf'', upload_id = 1,
       total_amount = Some amount, energy_consumption = Some (Fin (301 / 2)),
       bill_date = Some dt, corrected_amount = None, extraction_status = Success,
       error_message = None, created_at = t0 \<rparr>"

definition two_rates_world :: world where
  "two_rates_world = world0\<lparr>
     upload_batches := [example_batch],
     electricity_bills := [bill_of (Fin 1000) (ymd 2023 0 1)],
     selic_rates := [selic 1 (ymd 2023 0 1) (1 / 100), selic 2 (ymd 2023 1 1) (1 / 100)] \<rparr>"

definition current_month_world :: world where
  "current_month_world = world0\<lparr>
     upload_batches := [example_batch],
     electricity_bills := [bill_of (Fin 1000) (ymd 2023 2 5)],
     selic_rates := [selic 1 (ymd 2023 2 10) (1 / 100)],
     clock := ymd 2023 2 20 \<rparr>"


definition february_rate_world :: "int \<Rightarrow> world" where
  "february_rate_world tz = world0\<lparr>
     upload_batches := [example_batch],
     electricity_bills := [bill_of (Fin 1000) (ymd 2023 0 15)],
     selic_rates := [selic 1 (ymd 2023 1 1) (1 / 100)],
     clock := ymd 2023 1 5,
     tz_offset := tz \<rparr>"

text \<open>
  Readers for the examples: dates written \<^verbatim>\<open>YYYY-MM-DD\<close> and unsigned decimals, which is
  how the lines of the examples are written; any other text is an invalid date or NaN,
  as it is for the texts of the examples.
\<close>

definition digit_of :: "char \<Rightarrow> nat option" where
  "digit_of c = (let n = (of_char c :: nat) in if 48 \<le> n \<and> n \<le> 57 then Some (n - 48) else None)"

fun number_of :: "nat \<Rightarrow> string \<Rightarrow> nat option" where
  "number_of acc [] = Some acc"
| "number_of acc (c # cs) =
     (case digit_of c of None \<Rightarrow> None | Some v \<Rightarrow> number_of (acc * 10 + v) cs)"

definition read_nat :: "string \<Rightarrow> nat option" where
  "read_nat s = (if s = [] then None else number_of 0 s)"

definition iso_date :: "string \<Rightarrow> jsdate option" where
  "iso_date s =
     (case split CHR ''-'' s of
        [y, m, dd] \<Rightarrow>
          (case (read_nat y, read_nat m, read_nat dd) of
             (Some yv, Some mv, Some dv) \<Rightarrow>
               if length y = 4 \<and> length m = 2 \<and> length dd = 2 \<and> 1 \<le> mv \<and> mv \<le> 12
                  \<and> 1 \<le> dv \<and> dv \<le> days_in_month (int yv) (mv - 1)
               then Some \<lparr> year = int yv, month = mv - 1, day = dv, ms = 0 \<rparr>
               else None
           | _ \<Rightarrow> None)
      | _ \<Rightarrow> None)"

definition decimal :: "string \<Rightarrow> jsnum" where
  "decimal s =
     (case split CHR ''.'' s of
        [n] \<Rightarrow> (case read_nat n of Some nv \<Rightarrow> Fin (of_nat nv) | None \<Rightarrow> NaN)
      | [n, f] \<Rightarrow>
          (case (read_nat n, read_nat f) of
             (Some nv, Some fv) \<Rightarrow> Fin (of_nat nv + of_nat fv / 10 ^ length f)
           | _ \<Rightarrow> NaN)
      | _ \<Rightarrow> NaN)"

definition any_row :: "jsdate \<Rightarrow> jsnum \<Rightarrow> bool" where
  "any_row d r = True"

text \<open>
  A file with a well-formed line, a line of the same date and a malformed line; and a file
  with two lines of different days of January 2023.
\<close>

definition csv_three :: string where
  "csv_three = ''date,rate'' @ [CHR 0x0A] @ ''2023-01-01,0.0125'' @ [CHR 0x0A]
               @ ''2023-01-01,0.0110'' @ [CHR 0x0A] @ ''invalid-date,0.0110''"

definition csv_same_month :: string where
  "csv_same_month = ''date,rate'' @ [CHR 0x0A] @ ''2023-01-01,0.0125'' @ [CHR 0x0A]
                    @ ''2023-01-15,0.0110''"

section \<open>Properties\<close>

subsection \<open>Rows found by key\<close>

lemma filter_find:
  "List.find P xs = Some b \<Longrightarrow> \<exists>rest. filter P xs = b # rest"
  by (induction xs) (auto split: if_splits)

lemma find_map_upd:
  "List.find (\<lambda>b. key b = k) xs = Some b \<Longrightarrow> (\<And>x. key (f x) = key x) \<Longrightarrow>
   List.find (\<lambda>b. key b = k) (map (\<lambda>x. if key x = k then f x else x) xs) = Some (f b)"
  by (induction xs) (auto split: if_splits)

subsection \<open>The example states, evaluated\<close>

lemma uploaded1_eq:
  "uploaded1 = \<lparr> upload_batches = [example_batch], electricity_bills = [example_bill],
       selic_rates = [], next_batch_id = 2, next_bill_id = 2, next_rate_id = 1, clock = t0,
       tz_offset = 0 \<rparr>"
  by (simp add: uploaded1_def uploadZip_def billRecords_def Let_def world0_def single_zip_def
      example_batch_def example_bill_def)

lemma recorded1_eq:
  "recorded1 = \<lparr> upload_batches = [example_batch\<lparr> processed_files := 1, status := Completed,
                                                 completed_at := Some t1 \<rparr>],
       electricity_bills = [example_bill],
       selic_rates = [], next_batch_id = 2, next_bill_id = 2, next_rate_id = 1, clock = t1,
       tz_offset = 0 \<rparr>"
  by (simp add: recorded1_def uploaded1_eq at_time_def updateUploadBatchProgress_def Let_def
      example_batch_def)



subsection \<open>Batch creation\<close>

text \<open>
  C7, as claimed: a batch created with a declared file count of 0 is immediately complete.
  It is not: the batch created from an empty bundle is in status \<open>Processing\<close> with no
  completion time, and the response says \<^verbatim>\<open>processing\<close>.
\<close>

theorem uploadZip_empty_not_completed:
  "map status (upload_batches (snd (uploadZip world0 empty_zip))) = [Processing]
   \<and> map completed_at (upload_batches (snd (uploadZip world0 empty_zip))) = [None]
   \<and> map_sum id resp_status (fst (uploadZip world0 empty_zip)) = Inr ''processing''"
  by (simp add: uploadZip_def world0_def empty_zip_def billRecords_def Let_def)

text \<open>
  C7, amended: creating a batch, whatever the declared file count, appends one batch row in
  status \<open>Processing\<close> with both counters 0 and no completion time, and answers
  \<^verbatim>\<open>processing\<close>; with a declared count of 0 no bill row is created.
\<close>

theorem uploadZip_creates_processing_batch:
  "upload_batches (snd (uploadZip w input)) =
     upload_batches w @ [\<lparr> batch_id = next_batch_id w, batch_filename = in_filename input,
                           total_files = file_count input, processed_files = 0,
                           failed_files = 0, status = Processing,
                           batch_created_at = clock w, completed_at = None \<rparr>]
   \<and> electricity_bills (snd (uploadZip w (input\<lparr> file_count := 0 \<rparr>))) = electricity_bills w
   \<and> map_sum id resp_status (fst (uploadZip w input)) = Inr ''processing''"
  by (simp add: uploadZip_def billRecords_def Let_def)

subsection \<open>Batch progress\<close>

text \<open>
  C2, as claimed: the status is \<open>Completed\<close> exactly when \<open>processed_files\<close> equals
  \<open>total_files\<close>, and a call on a completed batch does not stamp \<open>completed_at\<close> again.
  A batch of one file is completed at \<open>t1\<close>; one more outcome at \<open>t2\<close> leaves it completed
  with 2 processed files of 1, and moves the stamp to \<open>t2\<close>.
\<close>

theorem updateUploadBatchProgress_restamps:
  "map (\<lambda>b. (total_files b, processed_files b, status b, completed_at b)) (upload_batches recorded1)
     = [(1, 1, Completed, Some t1)]
   \<and> map (\<lambda>b. (total_files b, processed_files b, status b, completed_at b)) (upload_batches recorded2)
     = [(1, 2, Completed, Some t2)]
   \<and> t1 \<noteq> t2"
  by (simp add: recorded2_def recorded1_def uploaded1_def uploadZip_def billRecords_def Let_def
      world0_def single_zip_def at_time_def updateUploadBatchProgress_def t1_def t2_def)

text \<open>
  C2, amended: recording an outcome on an existing batch succeeds, adds 1 to
  \<open>processed_files\<close> (and to \<open>failed_files\<close> on a failure) and keeps \<open>total_files\<close>; the
  status is then \<open>Completed\<close> exactly when \<open>processed_files \<ge> total_files\<close> and
  \<open>Processing\<close> otherwise; \<open>completed_at\<close> is set to the current time by every call that
  leaves \<open>processed_files \<ge> total_files\<close>, also on a batch that was complete already, and
  is kept as it was otherwise; so \<open>completed_at\<close> is non-null exactly when the status is
  \<open>Completed\<close>, as long as it was null before the batch was complete.
\<close>

theorem updateUploadBatchProgress_outcome:
  assumes "List.find (\<lambda>b. batch_id b = uploadId) (upload_batches w) = Some b"
  shows "\<exists>w' b'. updateUploadBatchProgress w uploadId isSuccess = (Inr (), w')
     \<and> List.find (\<lambda>b. batch_id b = uploadId) (upload_batches w') = Some b'
     \<and> total_files b' = total_files b
     \<and> processed_files b' = processed_files b + 1
     \<and> failed_files b' = failed_files b + (if isSuccess then 0 else 1)
     \<and> (status b' = Completed \<longleftrightarrow> processed_files b' \<ge> total_files b')
     \<and> (status b' = Processing \<longleftrightarrow> processed_files b' < total_files b')
     \<and> completed_at b'
         = (if processed_files b' \<ge> total_files b' then Some (clock w) else completed_at b)
     \<and> ((completed_at b \<noteq> None \<longrightarrow> total_files b \<le> processed_files b)
          \<longrightarrow> (completed_at b' \<noteq> None \<longleftrightarrow> status b' = Completed))"
proof -
  obtain rest where f: "filter (\<lambda>b. batch_id b = uploadId) (upload_batches w) = b # rest"
    using filter_find [OF assms(1)] by blast
  let ?f = "\<lambda>x. (let b1 = x\<lparr> processed_files := processed_files b + 1,
                      failed_files := failed_files b + (if isSuccess then 0 else 1),
                      status := (if processed_files b + 1 \<ge> total_files b
                                 then Completed else Processing) \<rparr>
                  in if processed_files b + 1 \<ge> total_files b
                     then b1\<lparr> completed_at := Some (clock w) \<rparr> else b1)"
  have k: "\<And>x. batch_id (?f x) = batch_id x" by (simp add: Let_def)
  have "List.find (\<lambda>b. batch_id b = uploadId)
          (map (\<lambda>x. if batch_id x = uploadId then ?f x else x) (upload_batches w)) = Some (?f b)"
    using assms(1) k by (rule find_map_upd)
  then show ?thesis using f
    by (auto simp add: updateUploadBatchProgress_def Let_def)
qed

theorem updateUploadBatchProgress_outcome_witness:
  "List.find (\<lambda>b. batch_id b = 1) (upload_batches (at_time t1 uploaded1)) = Some example_batch
   \<and> (\<exists>b'. List.find (\<lambda>b. batch_id b = 1) (upload_batches recorded1) = Some b'
          \<and> total_files b' = 1 \<and> processed_files b' = 1 \<and> failed_files b' = 0
          \<and> status b' = Completed \<and> completed_at b' = Some t1)"
proof -
  have h: "List.find (\<lambda>b. batch_id b = 1) (upload_batches (at_time t1 uploaded1))
           = Some example_batch"
    by (simp add: uploaded1_eq at_time_def example_batch_def)
  from updateUploadBatchProgress_outcome [OF h, of True]
  show ?thesis using h
    by (auto simp add: recorded1_def example_batch_def at_time_def)
qed

subsection \<open>Results of a bill\<close>



text \<open>On a pending bill the progress of the parent batch is recorded, after the row is written.\<close>

lemma updateBillResult_pending_notifies:
  assumes "List.find (\<lambda>r. bill_id r = in_id input) (electricity_bills w) = Some existing"
    and "extraction_status existing = Pending"
  shows "snd (updateBillResult w input)
     = snd (updateUploadBatchProgress
             (w\<lparr> electricity_bills := map (\<lambda>r. if bill_id r = in_id input then updateData input r else r)
                  (electricity_bills w) \<rparr>)
             (upload_id existing) (in_extraction_status input = Success))"
proof -
  obtain rest where f: "filter (\<lambda>r. bill_id r = in_id input) (electricity_bills w) = existing # rest"
    using filter_find [OF assms(1)] by blast
  show ?thesis using f assms(2)
    by (simp add: updateBillResult_def Let_def split: prod.splits sum.splits)
qed

subsection \<open>Per-file processing\<close>

text \<open>
  C10: processing a file, whether the extraction succeeds or fails or the batch is missing,
  leaves the table of batches as it was, so no field of the parent batch changes and no
  progress is recorded; it adds one bill row when the batch exists and none otherwise.
\<close>

theorem processBill_keeps_batches:
  "upload_batches (snd (processBill w input)) = upload_batches w
   \<and> length (electricity_bills (snd (processBill w input)))
       = length (electricity_bills w)
         + (if filter (\<lambda>b. batch_id b = in_upload_id input) (upload_batches w) = [] then 0 else 1)"
  by (simp add: processBill_def Let_def split: list.splits sum.splits)

text \<open>The two outcomes on the example batch: the new row is the second bill of the batch.\<close>

lemma extraction_good: "extraction good_pdf = Inr \<lparr> ex_total_amount = Fin (12345 / 100),
     ex_energy_consumption = Fin 180,
     ex_bill_date = \<lparr> year = 2023, month = 6, day = 15, ms = 0 \<rparr> \<rparr>"
  by code_simp

lemma extraction_bad: "extraction bad_pdf = Inl ''Invalid PDF format''"
  by code_simp

lemma pdf_fields:
  "in_upload_id good_pdf = 1" "in_bill_filename good_pdf = ''test_bill.pdf''"
  "in_upload_id bad_pdf = 1" "in_bill_filename bad_pdf = ''Invalid.PDF''"
  by (simp_all add: good_pdf_def bad_pdf_def)

lemma processBill_examples:
  "map extraction_status (electricity_bills (snd (processBill uploaded1 good_pdf)))
     = [Pending, Success]"
  "map extraction_status (electricity_bills (snd (processBill uploaded1 bad_pdf)))
     = [Pending, Error]"
  "map error_message (electricity_bills (snd (processBill uploaded1 bad_pdf)))
     = [None, Some ''Invalid PDF format'']"
  "upload_batches (snd (processBill uploaded1 bad_pdf)) = [example_batch]"
  by (simp_all add: processBill_def uploaded1_eq example_batch_def example_bill_def
      extraction_good extraction_bad pdf_fields Let_def)

subsection \<open>Report summary\<close>

lemma reduce_sum_map: "reduce_sum g (map f xs) = reduce_sum (\<lambda>x. g (f x)) xs"
  by (simp add: reduce_sum_def foldl_map)

lemma foldl_plus_Fin:
  "foldl (\<lambda>sum x. js_plus sum (Fin (f x))) (Fin a) xs = Fin (a + sum_list (map f xs))"
  by (induction xs arbitrary: a) (simp_all add: add.assoc)

lemma reduce_sum_Fin: "reduce_sum (\<lambda>x. Fin (f x)) xs = Fin (sum_list (map f xs))"
  by (simp add: reduce_sum_def foldl_plus_Fin)

lemma filter_converted:
  "filter (\<lambda>r. extraction_status r = s) (map (converted w) xs)
     = map (converted w) (filter (\<lambda>r. extraction_status r = s) xs)"
  by (induction xs) (simp_all add: converted_def)

lemma opt_or_or_zero: "opt_or (or_zero x) (Fin 0) = opt_or x (Fin 0)"
  by (cases x) (simp_all add: or_zero_def opt_or_def num_or_def)

text \<open>
  C5, as claimed: the corrected total uses \<open>corrected_amount\<close> and falls back to
  \<open>total_amount\<close> only when \<open>corrected_amount\<close> is absent.  A success record of
  amount 100 whose stored corrected amount is 0 contributes 100 to the corrected total,
  not 0.
\<close>

theorem generateReport_zero_corrected:
  "map corrected_amount (electricity_bills zero_corrected_world) = [Some (Fin 0)]
   \<and> map extraction_status (electricity_bills zero_corrected_world) = [Success]
   \<and> map_sum id (\<lambda>rep. total_corrected_amount (summary rep))
        (generateReport zero_corrected_world report_input) = Inr (Fin 100)"
  by (simp add: generateReport_def zero_corrected_world_def report_input_def world0_def
      example_batch_def report_bill_def converted_def or_zero_def or_now_def reduce_sum_def
      opt_or_def num_or_def Let_def)

text \<open>
  C5, amended: for an existing batch the report is produced; \<open>total_bills\<close> is the
  number of bill rows of the batch, \<open>successful_extractions\<close> and
  \<open>failed_extractions\<close> the numbers of its rows in status success and error (a pending
  row counts in neither); the three totals are sums over the success rows only, an absent
  amount counting 0; the corrected total takes \<open>corrected_amount\<close> and falls back to
  \<open>total_amount\<close> when \<open>corrected_amount\<close> is absent, 0 or NaN.
\<close>

theorem generateReport_summary:
  assumes "filter (\<lambda>b. batch_id b = gr_upload_id input) (upload_batches w) \<noteq> []"
  shows "\<exists>rep. generateReport w input = Inr rep
     \<and> total_bills (summary rep)
         = length (filter (\<lambda>r. upload_id r = gr_upload_id input) (electricity_bills w))
     \<and> successful_extractions (summary rep)
         = length (filter (\<lambda>r. extraction_status r = Success)
             (filter (\<lambda>r. upload_id r = gr_upload_id input) (electricity_bills w)))
     \<and> failed_extractions (summary rep)
         = length (filter (\<lambda>r. extraction_status r = Error)
             (filter (\<lambda>r. upload_id r = gr_upload_id input) (electricity_bills w)))
     \<and> total_original_amount (summary rep)
         = reduce_sum (\<lambda>r. opt_or (total_amount r) (Fin 0))
             (filter (\<lambda>r. extraction_status r = Success)
               (filter (\<lambda>r. upload_id r = gr_upload_id input) (electricity_bills w)))
     \<and> total_energy_consumption (summary rep)
         = reduce_sum (\<lambda>r. opt_or (energy_consumption r) (Fin 0))
             (filter (\<lambda>r. extraction_status r = Success)
               (filter (\<lambda>r. upload_id r = gr_upload_id input) (electricity_bills w)))
     \<and> total_corrected_amount (summary rep)
         = reduce_sum (\<lambda>r. case corrected_amount r of
                              None \<Rightarrow> opt_or (total_amount r) (Fin 0)
                            | Some c \<Rightarrow> if c = Fin 0 \<or> c = NaN
                                       then opt_or (total_amount r) (Fin 0) else c)
             (filter (\<lambda>r. extraction_status r = Success)
               (filter (\<lambda>r. upload_id r = gr_upload_id input) (electricity_bills w)))"
proof -
  obtain b bs where e: "filter (\<lambda>b. batch_id b = gr_upload_id input) (upload_batches w) = b # bs"
    using assms by (cases "filter (\<lambda>b. batch_id b = gr_upload_id input) (upload_batches w)") auto
  have c: "\<And>r. opt_or (corrected_amount (converted w r))
                 (opt_or (total_amount r) (Fin 0))
        = (case corrected_amount r of None \<Rightarrow> opt_or (total_amount r) (Fin 0)
           | Some c \<Rightarrow> if c = Fin 0 \<or> c = NaN then opt_or (total_amount r) (Fin 0) else c)"
  proof -
    fix r
    have t0: "opt_or (total_amount (converted w r)) (Fin 0) = opt_or (total_amount r) (Fin 0)"
      by (simp add: converted_def opt_or_or_zero)
    show "?thesis r"
    proof (cases "corrected_amount r")
      case None then show ?thesis using t0 by (simp add: opt_or_def converted_def)
    next
      case (Some c) then show ?thesis using t0
        by (cases c) (simp_all add: opt_or_def num_or_def converted_def)
    qed
  qed
  have t: "\<And>r. opt_or (total_amount (converted w r)) (Fin 0) = opt_or (total_amount r) (Fin 0)"
    and n: "\<And>r. opt_or (energy_consumption (converted w r)) (Fin 0)
                  = opt_or (energy_consumption r) (Fin 0)"
    by (simp_all add: converted_def opt_or_or_zero)
  show ?thesis using e
    by (simp add: generateReport_def Let_def filter_converted reduce_sum_map t n c)
qed

theorem generateReport_summary_witness:
  "filter (\<lambda>b. batch_id b = gr_upload_id report_input) (upload_batches report_world) \<noteq> []
   \<and> (\<exists>rep. generateReport report_world report_input = Inr rep
        \<and> total_bills (summary rep) = 3
        \<and> successful_extractions (summary rep) = 2
        \<and> failed_extractions (summary rep) = 1
        \<and> total_original_amount (summary rep) = Fin 300
        \<and> total_corrected_amount (summary rep) = Fin 320)"
proof -
  have h: "filter (\<lambda>b. batch_id b = gr_upload_id report_input) (upload_batches report_world) \<noteq> []"
    by (simp add: report_world_def report_input_def world0_def example_batch_def)
  from generateReport_summary [OF h] obtain rep where
    "generateReport report_world report_input = Inr rep"
    "total_bills (summary rep)
         = length (filter (\<lambda>r. upload_id r = gr_upload_id report_input) (electricity_bills report_world))"
    "successful_extractions (summary rep)
         = length (filter (\<lambda>r. extraction_status r = Success)
             (filter (\<lambda>r. upload_id r = gr_upload_id report_input) (electricity_bills report_world)))"
    "failed_extractions (summary rep)
         = length (filter (\<lambda>r. extraction_status r = Error)
             (filter (\<lambda>r. upload_id r = gr_upload_id report_input) (electricity_bills report_world)))"
    "total_original_amount (summary rep)
         = reduce_sum (\<lambda>r. opt_or (total_amount r) (Fin 0))
             (filter (\<lambda>r. extraction_status r = Success)
               (filter (\<lambda>r. upload_id r = gr_upload_id report_input) (electricity_bills report_world)))"
    "total_corrected_amount (summary rep)
         = reduce_sum (\<lambda>r. case corrected_amount r of
                              None \<Rightarrow> opt_or (total_amount r) (Fin 0)
                            | Some c \<Rightarrow> if c = Fin 0 \<or> c = NaN
                                       then opt_or (total_amount r) (Fin 0) else c)
             (filter (\<lambda>r. extraction_status r = Success)
               (filter (\<lambda>r. upload_id r = gr_upload_id report_input) (electricity_bills report_world)))"
    by blast
  then show ?thesis using h
    by (simp add: report_world_def report_input_def world0_def report_bill_def reduce_sum_def
        opt_or_def num_or_def)
qed

subsection \<open>Local time\<close>




text \<open>Midnight UTC of 1 March is 21:00 of 28 February three hours behind UTC.\<close>

lemma local_time_example:
  "local_time (- 180) (ymd 2023 2 1) = \<lparr> year = 2023, month = 1, day = 28, ms = 75600000 \<rparr>"
  "utc_time (- 180) \<lparr> year = 2023, month = 1, day = 28, ms = 75600000 \<rparr> = ymd 2023 2 1"
  by code_simp+

subsection \<open>The walk over the months\<close>






lemma month_after_index:
  "snd ym \<le> 11 \<Longrightarrow>
   month_index (month_after ym) = month_index ym + 1 \<and> snd (month_after ym) \<le> 11"
  by (auto simp add: month_after_def month_index_def)



lemma months_from_consecutive:
  "snd ym \<le> 11 \<Longrightarrow>
   map month_index (months_from ym n) = map (\<lambda>k. month_index ym + int k) [0 ..< n]"
proof (induction n arbitrary: ym)
  case 0
  then show ?case by simp
next
  case (Suc n)
  have a: "month_index (month_after ym) = month_index ym + 1" and b: "snd (month_after ym) \<le> 11"
    using month_after_index [OF Suc.prems] by simp_all
  have "map month_index (months_from (month_after ym) n)
        = map (\<lambda>k. month_index ym + 1 + int k) [0 ..< n]"
    using Suc.IH [OF b] by (simp add: a)
  also have "\<dots> = map (\<lambda>k. month_index ym + int k) (map Suc [0 ..< n])"
    by (simp add: comp_def add.assoc)
  finally show ?case
    by (simp add: upt_conv_Cons map_Suc_upt del: upt_Suc)
qed

text \<open>
  What the statements below leave aside.  From the 29th on the day can run over: a walk
  from 31 January steps to 3 March, so February is never visited.  A bill of the current
  month dated before the clock is corrected with a rate dated between them.  And the
  months are those of local time: three hours behind UTC, a rate dated 1 February counts
  for January.
\<close>

lemma setMonth_next_overflow:
  "setMonth_next 0 (ymd 2023 0 31) = ymd 2023 2 3"
  "calculateAccumulatedCorrection 0
     [selic 1 (ymd 2023 0 31) (1 / 100), selic 2 (ymd 2023 1 1) (1 / 100)]
     (ymd 2023 0 31) (ymd 2023 2 1) = Some (Fin (101 / 100))"
  by code_simp+

lemma current_month_bill:
  "map_sum id corrected_amount
     (fst (calculateSelicCorrection current_month_world
            (bill_of (Fin 1000) (ymd 2023 2 5)))) = Inr (Some (Fin 1010))"
  by code_simp

lemma time_zone_example:
  "map_sum id corrected_amount
     (fst (calculateSelicCorrection (february_rate_world 0)
            (bill_of (Fin 1000) (ymd 2023 0 15)))) = Inr (Some (Fin 1000))"
  "map_sum id corrected_amount
     (fst (calculateSelicCorrection (february_rate_world (- 180))
            (bill_of (Fin 1000) (ymd 2023 0 15)))) = Inr (Some (Fin 1010))"
  by code_simp+

subsection \<open>Storing the corrected amount\<close>

lemma round2_cents: "round2 (of_int n / 100) = of_int n / 100"
proof -
  have a: "\<lfloor>(of_int n :: rat) + 1 / 2\<rfloor> = n" by linarith
  have b: "\<lfloor>(of_int (- n) :: rat) + 1 / 2\<rfloor> = - n" by linarith
  show ?thesis using a b by (simp add: round2_def)
qed

lemma filter_map_key:
  "(\<And>x. key (f x) = key x) \<Longrightarrow>
   filter (\<lambda>r. key r = k) (map f xs) = map f (filter (\<lambda>r. key r = k) xs)"
  by (induction xs) simp_all

lemma store_corrected_existing:
  assumes "filter (\<lambda>r. bill_id r = bill_id b) (electricity_bills w) \<noteq> []"
    and "numeric_10_2 x = Some kept"
  shows "\<exists>r. fst (store_corrected w b x) = Inr r \<and> corrected_amount r = Some kept"
proof -
  obtain r0 rest where e: "filter (\<lambda>r. bill_id r = bill_id b) (electricity_bills w) = r0 # rest"
    using assms(1) by (cases "filter (\<lambda>r. bill_id r = bill_id b) (electricity_bills w)") auto
  have "filter (\<lambda>r. bill_id r = bill_id b)
          (map (\<lambda>r. if bill_id r = bill_id b then r\<lparr> corrected_amount := Some kept \<rparr> else r)
               (electricity_bills w))
        = map (\<lambda>r. if bill_id r = bill_id b then r\<lparr> corrected_amount := Some kept \<rparr> else r)
            (filter (\<lambda>r. bill_id r = bill_id b) (electricity_bills w))"
    by (rule filter_map_key) simp
  moreover have "r0 \<in> set (filter (\<lambda>r. bill_id r = bill_id b) (electricity_bills w))"
    using e by simp
  then have "bill_id r0 = bill_id b" by simp
  ultimately show ?thesis using e assms(2)
    by (simp add: store_corrected_def Let_def converted_def or_zero_def)
qed

lemma store_corrected_rows:
  "numeric_10_2 x = Some kept \<Longrightarrow>
   electricity_bills (snd (store_corrected w b x))
     = map (\<lambda>r. if bill_id r = bill_id b then r\<lparr> corrected_amount := Some kept \<rparr> else r)
           (electricity_bills w)"
  by (simp add: store_corrected_def Let_def split: list.splits)

lemma store_corrected_not_validation:
  "fst (store_corrected w b x) \<noteq> Inl CorrectionInputRequired"
  by (simp add: store_corrected_def Let_def split: list.splits option.splits)

lemma bill_of_fields:
  "bill_id (bill_of p dt) = 1" "total_amount (bill_of p dt) = Some p"
  "bill_date (bill_of p dt) = Some dt"
  by (simp_all add: bill_of_def)

lemma at_time_fields:
  "clock (at_time t w) = t" "electricity_bills (at_time t w) = electricity_bills w"
  "selic_rates (at_time t w) = selic_rates w" "upload_batches (at_time t w) = upload_batches w"
  "tz_offset (at_time t w) = tz_offset w"
  by (simp_all add: at_time_def)

lemma two_rates_world_fields:
  "electricity_bills two_rates_world = [bill_of (Fin 1000) (ymd 2023 0 1)]"
  "tz_offset two_rates_world = 0"
  by (simp_all add: two_rates_world_def world0_def)

subsection \<open>The correction\<close>




text \<open>
  C6, as claimed: with an origin date equal to the as-of date, every valid principal is
  returned exactly.  A principal of 100.005 is returned as 100.01, which is what the
  column of the corrected amount keeps of it; and a principal of 0 is not returned at
  all, the validation rejecting it.
\<close>

theorem calculateSelicCorrection_same_date_rounds:
  "map_sum id corrected_amount
     (fst (calculateSelicCorrection (at_time (ymd 2023 0 1) two_rates_world)
            (bill_of (Fin (100005 / 1000)) (ymd 2023 0 1)))) = Inr (Some (Fin (10001 / 100)))
   \<and> fst (calculateSelicCorrection (at_time (ymd 2023 0 1) two_rates_world)
            (bill_of (Fin 0) (ymd 2023 0 1))) = Inl CorrectionInputRequired"
  by code_simp

text \<open>
  C6, amended: for a stored bill with a principal \<open>p\<close> other than 0 that the column of the
  corrected amount can hold, a bill date equal to or later than the as-of date (the
  clock) makes the correction return, and store, \<open>p\<close> rounded to two decimals, with no
  factor applied; a principal of at most two decimals is returned as it is.
\<close>

theorem calculateSelicCorrection_not_before_now:
  assumes "bill_date b = Some d" and "total_amount b = Some (Fin p)" and "p \<noteq> 0"
    and "\<bar>round2 p\<bar> < 100000000"
    and "date_ge d (clock w)"
    and "filter (\<lambda>r. bill_id r = bill_id b) (electricity_bills w) \<noteq> []"
  shows "(\<exists>r. fst (calculateSelicCorrection w b) = Inr r
            \<and> corrected_amount r = Some (Fin (round2 p)))
     \<and> electricity_bills (snd (calculateSelicCorrection w b))
         = map (\<lambda>r. if bill_id r = bill_id b
                    then r\<lparr> corrected_amount := Some (Fin (round2 p)) \<rparr> else r)
               (electricity_bills w)
     \<and> round2 (of_int n / 100) = of_int n / 100"
proof -
  have k: "numeric_10_2 (Fin p) = Some (Fin (round2 p))"
    using assms(4) by simp
  have "calculateSelicCorrection w b = store_corrected w b (Fin p)"
    using assms(1,2,3,5) by (simp add: calculateSelicCorrection_def)
  then show ?thesis
    using store_corrected_existing [OF assms(6) k] store_corrected_rows [OF k, of w b]
      round2_cents [of n]
    by auto
qed

theorem calculateSelicCorrection_not_before_now_witness:
  "bill_date (bill_of (Fin 1000) (ymd 2023 0 1)) = Some (ymd 2023 0 1)
   \<and> total_amount (bill_of (Fin 1000) (ymd 2023 0 1)) = Some (Fin 1000)
   \<and> (1000 :: rat) \<noteq> 0 \<and> \<bar>round2 1000\<bar> < 100000000 \<and> round2 1000 = 1000
   \<and> date_ge (ymd 2023 0 1) (clock (at_time (ymd 2023 0 1) two_rates_world))
   \<and> (\<exists>r. fst (calculateSelicCorrection (at_time (ymd 2023 0 1) two_rates_world)
                 (bill_of (Fin 1000) (ymd 2023 0 1))) = Inr r
          \<and> corrected_amount r = Some (Fin 1000))
   \<and> map corrected_amount
        (electricity_bills (snd (calculateSelicCorrection (at_time (ymd 2023 0 1) two_rates_world)
                 (bill_of (Fin 1000) (ymd 2023 0 1))))) = [Some (Fin 1000)]"
proof -
  let ?w = "at_time (ymd 2023 0 1) two_rates_world"
  let ?b = "bill_of (Fin 1000) (ymd 2023 0 1)"
  have h1: "bill_date ?b = Some (ymd 2023 0 1)" and h2: "total_amount ?b = Some (Fin 1000)"
    by (simp_all add: bill_of_fields)
  have h3: "(1000 :: rat) \<noteq> 0" by simp
  have r: "round2 1000 = 1000" by code_simp
  have h4: "\<bar>round2 1000\<bar> < 100000000" by (simp add: r)
  have h5: "date_ge (ymd 2023 0 1) (clock ?w)"
    by (simp add: at_time_fields date_ge_def date_less_def)
  have h6: "filter (\<lambda>r. bill_id r = bill_id ?b) (electricity_bills ?w) \<noteq> []"
    by (simp add: at_time_fields two_rates_world_fields bill_of_fields)
  from calculateSelicCorrection_not_before_now [OF h1 h2 h3 h4 h5 h6]
  show ?thesis using h1 h2 h3 h4 h5 r
    by (simp add: at_time_fields two_rates_world_fields bill_of_fields)
qed

text \<open>
  C8, as claimed: the result depends on no clock other than an as-of date that is passed.
  No as-of date is passed: the handler takes the bill alone and reads the clock.  The same
  bill on the same tables is corrected to 1020.10 when the clock reads 1 March 2023 and to
  1010 when it reads 1 February 2023.
\<close>

theorem calculateSelicCorrection_reads_clock:
  "map_sum id corrected_amount
     (fst (calculateSelicCorrection (at_time (ymd 2023 2 1) two_rates_world)
            (bill_of (Fin 1000) (ymd 2023 0 1)))) = Inr (Some (Fin (102010 / 100)))
   \<and> map_sum id corrected_amount
     (fst (calculateSelicCorrection (at_time (ymd 2023 1 1) two_rates_world)
            (bill_of (Fin 1000) (ymd 2023 0 1)))) = Inr (Some (Fin 1010))"
  by code_simp

text \<open>
  C8, amended: no as-of date is passed; the handler reads the clock and takes its reading
  as the as-of date.  Two runs in the same time zone, on stored bills of the same
  principal and date, with the same rate table and the same reading of the clock, return
  the same corrected amount, whatever the other fields of the bills and the other tables
  hold.
\<close>

theorem calculateSelicCorrection_depends_on:
  assumes "total_amount b1 = total_amount b2" and "bill_date b1 = bill_date b2"
    and "clock w1 = clock w2" and "tz_offset w1 = tz_offset w2"
    and "selic_rates w1 = selic_rates w2"
    and "filter (\<lambda>r. bill_id r = bill_id b1) (electricity_bills w1) \<noteq> []"
    and "filter (\<lambda>r. bill_id r = bill_id b2) (electricity_bills w2) \<noteq> []"
  shows "map_sum id corrected_amount (fst (calculateSelicCorrection w1 b1))
       = map_sum id corrected_amount (fst (calculateSelicCorrection w2 b2))"
proof -
  have s: "\<And>x. map_sum id corrected_amount (fst (store_corrected w1 b1 x))
             = map_sum id corrected_amount (fst (store_corrected w2 b2 x))"
  proof -
    fix x
    show "map_sum id corrected_amount (fst (store_corrected w1 b1 x))
             = map_sum id corrected_amount (fst (store_corrected w2 b2 x))"
    proof (cases "numeric_10_2 x")
      case None
      then show ?thesis by (simp add: store_corrected_def)
    next
      case (Some kept)
      from store_corrected_existing [OF assms(6) Some] store_corrected_existing [OF assms(7) Some]
      show ?thesis by auto
    qed
  qed
  have g: "\<And>a c. getSelicRatesForPeriod w1 a c = getSelicRatesForPeriod w2 a c"
    using assms(5) by (simp add: getSelicRatesForPeriod_def)
  show ?thesis
    using assms(1-4) s g
    by (simp add: calculateSelicCorrection_def Let_def split: option.splits)
qed

theorem calculateSelicCorrection_depends_on_witness:
  "total_amount (bill_of (Fin 1000) (ymd 2023 0 1))
     = total_amount ((bill_of (Fin 1000) (ymd 2023 0 1))\<lparr> filename := ''other.pdf'' \<rparr>)
   \<and> clock (at_time (ymd 2023 2 1) two_rates_world)
     = clock ((at_time (ymd 2023 2 1) two_rates_world)\<lparr> upload_batches := [] \<rparr>)
   \<and> tz_offset (at_time (ymd 2023 2 1) two_rates_world)
     = tz_offset ((at_time (ymd 2023 2 1) two_rates_world)\<lparr> upload_batches := [] \<rparr>)
   \<and> map_sum id corrected_amount
       (fst (calculateSelicCorrection (at_time (ymd 2023 2 1) two_rates_world)
              (bill_of (Fin 1000) (ymd 2023 0 1))))
     = map_sum id corrected_amount
       (fst (calculateSelicCorrection ((at_time (ymd 2023 2 1) two_rates_world)\<lparr> upload_batches := [] \<rparr>)
              ((bill_of (Fin 1000) (ymd 2023 0 1))\<lparr> filename := ''other.pdf'' \<rparr>)))"
proof -
  let ?w1 = "at_time (ymd 2023 2 1) two_rates_world"
  let ?w2 = "?w1\<lparr> upload_batches := [] \<rparr>"
  let ?b1 = "bill_of (Fin 1000) (ymd 2023 0 1)"
  let ?b2 = "?b1\<lparr> filename := ''other.pdf'' \<rparr>"
  have h1: "total_amount ?b1 = total_amount ?b2" and h2: "bill_date ?b1 = bill_date ?b2"
    and h3: "clock ?w1 = clock ?w2" and h4: "tz_offset ?w1 = tz_offset ?w2"
    and h5: "selic_rates ?w1 = selic_rates ?w2"
    by simp_all
  have h6: "filter (\<lambda>r. bill_id r = bill_id ?b1) (electricity_bills ?w1) \<noteq> []"
    by (simp add: at_time_fields two_rates_world_fields bill_of_fields)
  have h7: "filter (\<lambda>r. bill_id r = bill_id ?b2) (electricity_bills ?w2) \<noteq> []"
    by (simp add: at_time_fields two_rates_world_fields bill_of_fields)
  from calculateSelicCorrection_depends_on [OF h1 h2 h3 h4 h5 h6 h7]
  show ?thesis by simp
qed

text \<open>
  The validation rejects a bill exactly when its date is absent or its principal is falsy:
  absent, 0 or NaN.
\<close>

lemma calculateSelicCorrection_rejects_falsy:
  "fst (calculateSelicCorrection w b) = Inl CorrectionInputRequired
   \<longleftrightarrow> bill_date b = None \<or> total_amount b = None
       \<or> total_amount b = Some (Fin 0) \<or> total_amount b = Some NaN"
proof (cases "bill_date b")
  case None
  then show ?thesis by (simp add: calculateSelicCorrection_def)
next
  case (Some d)
  show ?thesis
  proof (cases "total_amount b")
    case None
    then show ?thesis using Some by (simp add: calculateSelicCorrection_def)
  next
    case (Some p)
    then show ?thesis using \<open>bill_date b = Some d\<close>
      by (cases p)
         (simp_all add: calculateSelicCorrection_def Let_def store_corrected_not_validation
            split: option.splits)
  qed
qed

text \<open>
  C9, as claimed: the operation fails on validation exactly when the principal is not a
  finite non-negative number or the origin date is absent.  A principal of -5 passes
  validation and is corrected; an infinite one passes validation too, and it is the
  database that refuses the value.
\<close>

theorem calculateSelicCorrection_accepts_negative:
  "map_sum id corrected_amount
     (fst (calculateSelicCorrection (at_time (ymd 2023 2 1) two_rates_world)
            (bill_of (Fin (- 5)) (ymd 2023 0 1)))) = Inr (Some (Fin (- (51 / 10))))
   \<and> fst (calculateSelicCorrection (at_time (ymd 2023 2 1) two_rates_world)
            (bill_of PInf (ymd 2023 0 1))) = Inl NumericFieldOverflow"
  by code_simp

text \<open>
  C9, amended: for a principal other than 0, the operation fails with its validation error
  exactly when the bill date is absent or the principal is absent or NaN; so every number
  but 0 and NaN, negative and infinite ones included, passes validation when the bill date
  is present.  There is no check of sign or of finiteness.
\<close>

theorem calculateSelicCorrection_validation:
  assumes "total_amount b \<noteq> Some (Fin 0)"
  shows "fst (calculateSelicCorrection w b) = Inl CorrectionInputRequired
   \<longleftrightarrow> bill_date b = None \<or> total_amount b = None \<or> total_amount b = Some NaN"
  using assms calculateSelicCorrection_rejects_falsy [of w b] by simp

theorem calculateSelicCorrection_validation_witness:
  "total_amount (bill_of (Fin (- 5)) (ymd 2023 0 1)) \<noteq> Some (Fin 0)
   \<and> bill_date (bill_of (Fin (- 5)) (ymd 2023 0 1)) \<noteq> None
   \<and> fst (calculateSelicCorrection (at_time (ymd 2023 2 1) two_rates_world)
            (bill_of (Fin (- 5)) (ymd 2023 0 1))) \<noteq> Inl CorrectionInputRequired"
proof -
  have h: "total_amount (bill_of (Fin (- 5)) (ymd 2023 0 1)) \<noteq> Some (Fin 0)"
    by (simp add: bill_of_fields)
  from calculateSelicCorrection_validation [OF h, of "at_time (ymd 2023 2 1) two_rates_world"]
  show ?thesis using h by (simp add: bill_of_fields)
qed

subsection \<open>Loading the rate series\<close>

text \<open>The loop body does to a line what the specification says of it.\<close>

lemma process_line_outcome:
  "process_line parseDate parseFloat accepts st line
     = line_outcome parseDate parseFloat accepts st line"
  by (simp add: process_line_def line_outcome_def parse_line_def Let_def
      split: list.splits option.splits)

lemma line_outcome_count:
  "loaded (line_outcome pd pf acc st line) + skipped (line_outcome pd pf acc st line)
     + errors (line_outcome pd pf acc st line) = loaded st + skipped st + errors st + 1"
  by (simp add: line_outcome_def split: option.splits prod.splits)

lemma foldl_line_outcome_count:
  "loaded (foldl (line_outcome pd pf acc) st ls) + skipped (foldl (line_outcome pd pf acc) st ls)
     + errors (foldl (line_outcome pd pf acc) st ls)
   = loaded st + skipped st + errors st + length ls"
proof (induction ls arbitrary: st)
  case Nil
  then show ?case by simp
next
  case (Cons l ls)
  show ?case using Cons.IH [of "line_outcome pd pf acc st l"] line_outcome_count [of pd pf acc st l]
    by simp
qed

text \<open>What a line adds to the table, and that the other tables are kept.\<close>

lemma line_outcome_rows:
  assumes "set (map (\<lambda>r. dateKey (date r)) (selic_rates (db st))) \<subseteq> set (existingDates st)"
  shows "\<exists>new. selic_rates (db (line_outcome pd pf acc st line)) = selic_rates (db st) @ new
     \<and> loaded (line_outcome pd pf acc st line) = loaded st + length new
     \<and> length new \<le> 1
     \<and> set (map (\<lambda>r. dateKey (date r)) new) \<inter> set (existingDates st) = {}
     \<and> set (existingDates (line_outcome pd pf acc st line))
         = set (existingDates st) \<union> set (map (\<lambda>r. dateKey (date r)) new)
     \<and> upload_batches (db (line_outcome pd pf acc st line)) = upload_batches (db st)
     \<and> electricity_bills (db (line_outcome pd pf acc st line)) = electricity_bills (db st)"
  by (auto simp add: line_outcome_def insert_rate_def split: option.splits prod.splits if_splits)

lemma foldl_line_outcome_rows:
  assumes "set (map (\<lambda>r. dateKey (date r)) (selic_rates (db st))) \<subseteq> set (existingDates st)"
  shows "\<exists>new. selic_rates (db (foldl (line_outcome pd pf acc) st ls)) = selic_rates (db st) @ new
     \<and> loaded (foldl (line_outcome pd pf acc) st ls) = loaded st + length new
     \<and> distinct (map (\<lambda>r. dateKey (date r)) new)
     \<and> set (map (\<lambda>r. dateKey (date r)) new) \<inter> set (existingDates st) = {}
     \<and> upload_batches (db (foldl (line_outcome pd pf acc) st ls)) = upload_batches (db st)
     \<and> electricity_bills (db (foldl (line_outcome pd pf acc) st ls)) = electricity_bills (db st)"
  using assms
proof (induction ls arbitrary: st)
  case Nil
  then show ?case by simp
next
  case (Cons l ls)
  let ?st1 = "line_outcome pd pf acc st l"
  obtain n1 where a: "selic_rates (db ?st1) = selic_rates (db st) @ n1"
    and b: "loaded ?st1 = loaded st + length n1"
    and c: "length n1 \<le> 1"
    and d: "set (map (\<lambda>r. dateKey (date r)) n1) \<inter> set (existingDates st) = {}"
    and e: "set (existingDates ?st1) = set (existingDates st) \<union> set (map (\<lambda>r. dateKey (date r)) n1)"
    and f: "upload_batches (db ?st1) = upload_batches (db st)"
    and g: "electricity_bills (db ?st1) = electricity_bills (db st)"
    using line_outcome_rows [OF Cons.prems, of pd pf acc l] by blast
  have inv: "set (map (\<lambda>r. dateKey (date r)) (selic_rates (db ?st1))) \<subseteq> set (existingDates ?st1)"
    using Cons.prems a e by auto
  obtain n2 where a2: "selic_rates (db (foldl (line_outcome pd pf acc) ?st1 ls))
        = selic_rates (db ?st1) @ n2"
    and b2: "loaded (foldl (line_outcome pd pf acc) ?st1 ls) = loaded ?st1 + length n2"
    and c2: "distinct (map (\<lambda>r. dateKey (date r)) n2)"
    and d2: "set (map (\<lambda>r. dateKey (date r)) n2) \<inter> set (existingDates ?st1) = {}"
    and f2: "upload_batches (db (foldl (line_outcome pd pf acc) ?st1 ls)) = upload_batches (db ?st1)"
    and g2: "electricity_bills (db (foldl (line_outcome pd pf acc) ?st1 ls))
               = electricity_bills (db ?st1)"
    using Cons.IH [OF inv] by blast
  have dn1: "distinct (map (\<lambda>r. dateKey (date r)) n1)"
    using c by (cases n1) (auto simp add: le_Suc_eq)
  have "distinct (map (\<lambda>r. dateKey (date r)) (n1 @ n2))"
    using dn1 c2 d2 e by auto
  moreover have "set (map (\<lambda>r. dateKey (date r)) (n1 @ n2)) \<inter> set (existingDates st) = {}"
    using d d2 e by auto
  ultimately show ?case
    using a a2 b b2 f f2 g g2
    by (intro exI [of _ "n1 @ n2"]) simp
qed

text \<open>A missing file is one error and nothing else; the lines of the handler's own test of invalid data.\<close>

lemma loadSelicData_missing_file:
  "loadSelicData parseDate parseFloat accepts w None
     = (\<lparr> res_loaded = 0, res_skipped = 0, res_errors = 1 \<rparr>, w)"
  by (simp add: loadSelicData_def)

lemma loadSelicData_invalid_lines:
  "fst (loadSelicData iso_date decimal any_row world0
     (Some (''date,rate'' @ [CHR 0x0A] @ ''2023-01-01,0.0125'' @ [CHR 0x0A]
            @ ''invalid-date,0.0110'' @ [CHR 0x0A] @ ''2023-03-01,invalid-rate'' @ [CHR 0x0A]
            @ ''2023-04-01,'' @ [CHR 0x0A] @ '',0.0095'')))
   = \<lparr> res_loaded = 1, res_skipped = 0, res_errors = 4 \<rparr>"
  by code_simp

text \<open>
  C4, as claimed: a line whose calendar month is already present is skipped.  The key of
  the existing dates is the day: of two lines of 1 and 15 January 2023 both are loaded
  and none is skipped.
\<close>

theorem loadSelicData_same_month_loaded:
  "dataLines csv_same_month = [''2023-01-01,0.0125'', ''2023-01-15,0.0110'']
   \<and> map_option month_of (iso_date ''2023-01-01'') = Some (2023, 0)
   \<and> map_option month_of (iso_date ''2023-01-15'') = Some (2023, 0)
   \<and> fst (loadSelicData iso_date decimal any_row world0 (Some csv_same_month))
       = \<lparr> res_loaded = 2, res_skipped = 0, res_errors = 0 \<rparr>"
  by code_simp

text \<open>
  C4, amended: whatever the readers of dates and numbers return and whatever rows the
  database accepts, the loader treats each data line on its own and never stops at bad
  data: a line without a date cell or a rate cell, or whose cells do not read as a valid
  date and a number, adds one to \<open>errors\<close> and inserts nothing; a line whose calendar
  day is already present, in the table or loaded earlier in the run, adds one to
  \<open>skipped\<close> and inserts nothing; any other line is inserted and adds one to
  \<open>loaded\<close> (or one to \<open>errors\<close> if the database refuses the row).  So every data line
  is counted exactly once, the table grows by exactly the loaded rows, and these have
  pairwise different days, none of them present before.  A file with one well-formed
  line, one line of the same date and one malformed line reports loaded 1, skipped 1,
  errors 1.
\<close>

theorem loadSelicData_line_by_line:
  "process_line parseDate parseFloat accepts st line
     = line_outcome parseDate parseFloat accepts st line
   \<and> res_loaded (fst (loadSelicData parseDate parseFloat accepts w (Some csvContent)))
       + res_skipped (fst (loadSelicData parseDate parseFloat accepts w (Some csvContent)))
       + res_errors (fst (loadSelicData parseDate parseFloat accepts w (Some csvContent)))
     = length (dataLines csvContent)
   \<and> (\<exists>new. selic_rates (snd (loadSelicData parseDate parseFloat accepts w (Some csvContent)))
               = selic_rates w @ new
          \<and> length new = res_loaded (fst (loadSelicData parseDate parseFloat accepts w (Some csvContent)))
          \<and> distinct (map (\<lambda>r. dateKey (date r)) new)
          \<and> set (map (\<lambda>r. dateKey (date r)) new)
               \<inter> set (map (\<lambda>r. dateKey (date r)) (selic_rates w)) = {})
   \<and> fst (loadSelicData iso_date decimal any_row world0 (Some csv_three))
       = \<lparr> res_loaded = 1, res_skipped = 1, res_errors = 1 \<rparr>"
proof -
  let ?init = "\<lparr> loaded = 0, skipped = 0, errors = 0,
                 existingDates = map (\<lambda>r. dateKey (date r)) (selic_rates w), db = w \<rparr>"
  let ?st = "foldl (line_outcome parseDate parseFloat accepts) ?init (dataLines csvContent)"
  have step: "process_line parseDate parseFloat accepts = line_outcome parseDate parseFloat accepts"
    by (intro ext) (rule process_line_outcome)
  have run: "loadSelicData parseDate parseFloat accepts w (Some csvContent)
      = (\<lparr> res_loaded = loaded ?st, res_skipped = skipped ?st, res_errors = errors ?st \<rparr>, db ?st)"
    by (simp add: loadSelicData_def step Let_def)
  have count: "loaded ?st + skipped ?st + errors ?st = length (dataLines csvContent)"
    using foldl_line_outcome_count [of parseDate parseFloat accepts ?init "dataLines csvContent"]
    by simp
  have inv: "set (map (\<lambda>r. dateKey (date r)) (selic_rates (db ?init))) \<subseteq> set (existingDates ?init)"
    by simp
  have rows: "\<exists>new. selic_rates (db ?st) = selic_rates w @ new \<and> length new = loaded ?st
          \<and> distinct (map (\<lambda>r. dateKey (date r)) new)
          \<and> set (map (\<lambda>r. dateKey (date r)) new)
               \<inter> set (map (\<lambda>r. dateKey (date r)) (selic_rates w)) = {}"
    using foldl_line_outcome_rows [OF inv, of parseDate parseFloat accepts "dataLines csvContent"]
    by auto
  have example: "fst (loadSelicData iso_date decimal any_row world0 (Some csv_three))
       = \<lparr> res_loaded = 1, res_skipped = 1, res_errors = 1 \<rparr>"
    by code_simp
  show ?thesis
    using process_line_outcome [of parseDate parseFloat accepts st line] count rows example
    by (simp add: run)
qed

end
